theory Spec2Isabelle
  imports Main "HOL-Library.Sublist"
begin

section \<open>JavaScript values\<close>

text \<open>
  The relay in \<^verbatim>\<open>src/server.js\<close> moves untyped JSON values between the request body,
  the vendor SDK and the response. A value is modelled as it is after \<^verbatim>\<open>JSON.parse\<close>,
  plus \<^verbatim>\<open>undefined\<close>. Numbers are the integers (JSON numbers with a fraction are not
  represented); a string is a list of characters, whose length stands for the
  \<^verbatim>\<open>length\<close> of the JavaScript string; an object is an association list in which the
  first binding of a key is the one that is read.
\<close>

datatype jsval =
    JUndefined
  | JNull
  | JBool bool
  | JNum int
  | JStr string
  | JArr "jsval list"
  | JObj "(string \<times> jsval) list"

text \<open>
  Evaluating an expression either yields a value or throws. Everything thrown in this
  program is an \<^verbatim>\<open>Error\<close> object of which only \<^verbatim>\<open>err.message\<close> is ever read, so a
  thrown error is represented by its message.
\<close>

datatype 'a completion = Normal 'a | Throw string

text \<open>ToBoolean, as used by \<^verbatim>\<open>!x\<close>, \<^verbatim>\<open>x || y\<close> and \<^verbatim>\<open>x ? y : z\<close>.\<close>

fun truthy :: "jsval \<Rightarrow> bool" where
  "truthy JUndefined = False"
| "truthy JNull = False"
| "truthy (JBool b) = b"
| "truthy (JNum n) = (n \<noteq> 0)"
| "truthy (JStr s) = (s \<noteq> [])"
| "truthy (JArr xs) = True"
| "truthy (JObj kvs) = True"

text \<open>\<^verbatim>\<open>a || b\<close> on values that are already evaluated.\<close>

definition js_or :: "jsval \<Rightarrow> jsval \<Rightarrow> jsval" where
  "js_or a b = (if truthy a then a else b)"

text \<open>\<^verbatim>\<open>undefined\<close> and \<^verbatim>\<open>null\<close> are the two values that have no properties.\<close>

definition nullish :: "jsval \<Rightarrow> bool" where
  "nullish v = (v = JUndefined \<or> v = JNull)"

text \<open>
  Decimal digits of a natural number, most significant first. This is how ToString
  renders a number that is an integer of magnitude below ten to the power 21; a
  \<open>JNum n\<close> stands for a JavaScript number only when \<open>n\<close> is such an integer (from
  there on JavaScript prints an exponent, which is not modelled). The lengths of arrays
  and strings, the only numbers that the handlers themselves produce, are far below.
\<close>

fun dec :: "nat \<Rightarrow> string" where
  "dec n = (if n < 10 then [''0123456789'' ! n]
            else dec (n div 10) @ [''0123456789'' ! (n mod 10)])"

declare dec.simps [simp del]

definition dec_int :: "int \<Rightarrow> string" where
  "dec_int i = (if i < 0 then CHR ''-'' # dec (nat (- i)) else dec (nat i))"

text \<open>
  ToString, as applied by a template literal \<^verbatim>\<open>`${v}`\<close>. An array is joined with
  commas, its \<^verbatim>\<open>null\<close> and \<^verbatim>\<open>undefined\<close> elements giving the empty string. A plain
  object gives \<^verbatim>\<open>[object Object]\<close> through \<^verbatim>\<open>Object.prototype.toString\<close>; an object
  with a property \<^verbatim>\<open>toString\<close> of its own, which in a JSON value is never a function,
  cannot be converted, and V8 throws \<^verbatim>\<open>Cannot convert object to primitive value\<close>.
\<close>

fun to_string :: "jsval \<Rightarrow> string completion"
  and join_elems :: "jsval list \<Rightarrow> string completion" where
  "to_string JUndefined = Normal ''undefined''"
| "to_string JNull = Normal ''null''"
| "to_string (JBool b) = Normal (if b then ''true'' else ''false'')"
| "to_string (JNum n) = Normal (dec_int n)"
| "to_string (JStr s) = Normal s"
| "to_string (JArr xs) = join_elems xs"
| "to_string (JObj kvs) =
     (if map_of kvs ''toString'' = None then Normal ''[object Object]''
      else Throw ''Cannot convert object to primitive value'')"
| "join_elems [] = Normal []"
| "join_elems (x # xs) =
     (case (if nullish x then Normal [] else to_string x) of
        Throw e \<Rightarrow> Throw e
      | Normal a \<Rightarrow>
          if xs = [] then Normal a
          else (case join_elems xs of
                  Throw e \<Rightarrow> Throw e
                | Normal b \<Rightarrow> Normal (a @ '','' @ b)))"

text \<open>How V8 names \<^verbatim>\<open>undefined\<close> and \<^verbatim>\<open>null\<close> in the message of a TypeError.\<close>

definition nullish_name :: "jsval \<Rightarrow> string" where
  "nullish_name v = (if v = JNull then ''null'' else ''undefined'')"

text \<open>
  The message of the TypeError that V8 throws when a property of \<^verbatim>\<open>undefined\<close> or
  \<^verbatim>\<open>null\<close> is read: \<^verbatim>\<open>Cannot read properties of undefined (reading 'id')\<close>.
\<close>

definition type_error :: "jsval \<Rightarrow> string \<Rightarrow> string" where
  "type_error v k =
     ''Cannot read properties of '' @ nullish_name v @ '' (reading '' @ [CHR 0x27] @ k @ [CHR 0x27] @ '')''"

text \<open>
  The value of a named property \<^verbatim>\<open>v.k\<close> of a value that has properties, for the
  identifier names the source uses: a missing property is \<^verbatim>\<open>undefined\<close>; arrays and
  strings have a \<^verbatim>\<open>length\<close>.
\<close>

fun field :: "jsval \<Rightarrow> string \<Rightarrow> jsval" where
  "field (JObj kvs) k = (case map_of kvs k of None \<Rightarrow> JUndefined | Some v \<Rightarrow> v)"
| "field (JArr xs) k = (if k = ''length'' then JNum (int (length xs)) else JUndefined)"
| "field (JStr s) k = (if k = ''length'' then JNum (int (length s)) else JUndefined)"
| "field v k = JUndefined"

text \<open>Reading \<^verbatim>\<open>v.k\<close>: a TypeError when \<^verbatim>\<open>v\<close> is \<^verbatim>\<open>undefined\<close> or \<^verbatim>\<open>null\<close>.\<close>

definition get_prop :: "jsval \<Rightarrow> string \<Rightarrow> jsval completion" where
  "get_prop v k = (if nullish v then Throw (type_error v k) else Normal (field v k))"

text \<open>The element \<^verbatim>\<open>v[i]\<close> of a value that has properties, for a literal index.\<close>

fun element :: "jsval \<Rightarrow> nat \<Rightarrow> jsval" where
  "element (JArr xs) i = (if i < length xs then xs ! i else JUndefined)"
| "element (JStr s) i = (if i < length s then JStr [s ! i] else JUndefined)"
| "element (JObj kvs) i = (case map_of kvs (dec i) of None \<Rightarrow> JUndefined | Some v \<Rightarrow> v)"
| "element v i = JUndefined"

definition get_index :: "jsval \<Rightarrow> nat \<Rightarrow> jsval completion" where
  "get_index v i = (if nullish v then Throw (type_error v (dec i)) else Normal (element v i))"

text \<open>
  Object destructuring \<^verbatim>\<open>const { k } = v\<close>, where \<^verbatim>\<open>v\<close> is the expression written
  \<^verbatim>\<open>src\<close>: V8 throws \<^verbatim>\<open>Cannot destructure property 'k' of 'src' as it is undefined.\<close>
  when \<^verbatim>\<open>v\<close> is \<^verbatim>\<open>undefined\<close> or \<^verbatim>\<open>null\<close>.
\<close>

definition destructure :: "jsval \<Rightarrow> string \<Rightarrow> string \<Rightarrow> jsval completion" where
  "destructure v src k =
     (if nullish v
      then Throw (''Cannot destructure property '' @ [CHR 0x27] @ k @ [CHR 0x27] @ '' of '' @
                  [CHR 0x27] @ src @ [CHR 0x27] @ '' as it is '' @ nullish_name v @ ''.'')
      else get_prop v k)"

section \<open>The vendor, the log and the response as observable events\<close>

text \<open>
  One constructor per method of the vendor SDK that \<^verbatim>\<open>server.js\<close> calls, carrying the
  arguments of the call in order.
\<close>

datatype vendor_call =
    ReadersCreate jsval
  | ConnectionTokensCreate
  | PaymentIntentsCreate jsval
  | PaymentIntentsCapture jsval jsval
  | PaymentIntentsCancel jsval
  | PaymentIntentsUpdate jsval jsval
  | SetupIntentsCreate jsval
  | CustomersList jsval
  | CustomersCreate jsval
  | PaymentMethodsAttach jsval jsval
  | LocationsList jsval
  | LocationsCreate jsval

text \<open>
  What \<^verbatim>\<open>res\<close> sends: \<^verbatim>\<open>res.json(v)\<close>, \<^verbatim>\<open>res.send(text)\<close> or \<^verbatim>\<open>res.sendFile(path)\<close>
  (the path relative to the directory of \<^verbatim>\<open>server.js\<close>).
\<close>

datatype body = Json jsval | Text string | File string

text \<open>
  What a handler does to the outside, in the order it does it: a vendor call together
  with how the awaited promise settled, the argument of a \<^verbatim>\<open>console.log\<close>, and the
  status and body of the response.
\<close>

datatype event =
    Call vendor_call "jsval completion"
  | Log string
  | Respond nat body

text \<open>
  The vendor is outside the repository. It is a parameter of the model: any function
  from its own state and a call to the settled result and its next state. A rejected
  promise is \<open>Throw\<close> with the message of the vendor's error.
\<close>

type_synonym 's vendor = "'s \<Rightarrow> vendor_call \<Rightarrow> jsval completion \<times> 's"

text \<open>
  A statement run against the vendor in state \<open>s\<close> completes, writes events, and leaves
  the vendor in a new state.
\<close>

type_synonym ('s, 'a) io = "'s \<Rightarrow> 'a completion \<times> event list \<times> 's"

text \<open>A value, and an expression that was evaluated without the vendor.\<close>

definition ret :: "'a \<Rightarrow> ('s, 'a) io" where
  "ret a s = (Normal a, [], s)"

definition lift :: "'a completion \<Rightarrow> ('s, 'a) io" where
  "lift r s = (r, [], s)"

text \<open>Sequencing of statements: a throw skips what follows.\<close>

definition and_then :: "('s, 'a) io \<Rightarrow> ('a \<Rightarrow> ('s, 'b) io) \<Rightarrow> ('s, 'b) io" where
  "and_then m f s =
     (case m s of
        (Normal a, es, s') \<Rightarrow> (case f a s' of (r, es', s'') \<Rightarrow> (r, es @ es', s''))
      | (Throw e, es, s') \<Rightarrow> (Throw e, es, s'))"

text \<open>\<^verbatim>\<open>try { m } catch (err) { h err.message }\<close>.\<close>

definition try_catch :: "('s, 'a) io \<Rightarrow> (string \<Rightarrow> ('s, 'a) io) \<Rightarrow> ('s, 'a) io" where
  "try_catch m h s =
     (case m s of
        (Normal a, es, s') \<Rightarrow> (Normal a, es, s')
      | (Throw e, es, s') \<Rightarrow> (case h e s' of (r, es', s'') \<Rightarrow> (r, es @ es', s'')))"

definition emit :: "event \<Rightarrow> ('s, unit) io" where
  "emit e s = (Normal (), [e], s)"

text \<open>\<^verbatim>\<open>await stripe.<method>(<args>)\<close>: the call and its settlement are recorded.\<close>

definition await :: "'s vendor \<Rightarrow> vendor_call \<Rightarrow> ('s, jsval) io" where
  "await vendor c s = (case vendor s c of (r, s') \<Rightarrow> (r, [Call c r], s'))"

definition read :: "jsval \<Rightarrow> string \<Rightarrow> ('s, jsval) io" where
  "read v k = lift (get_prop v k)"

definition respond :: "nat \<Rightarrow> body \<Rightarrow> ('s, unit) io" where
  "respond status b = emit (Respond status b)"

text \<open>
  \<^verbatim>\<open>function logInfo(message) { console.log("\n" + message + "\n"); return message; }\<close>
\<close>

definition logInfo :: "string \<Rightarrow> ('s, string) io" where
  "logInfo message =
     and_then (emit (Log ([CHR 0x0A] @ message @ [CHR 0x0A]))) (\<lambda>_. ret message)"

text \<open>
  A template literal with one substitution, \<^verbatim>\<open>`before${v}after`\<close>: it throws when
  \<open>v\<close> cannot be converted to a string.
\<close>

definition template :: "string \<Rightarrow> jsval \<Rightarrow> string \<Rightarrow> ('s, string) io" where
  "template before v after =
     lift (case to_string v of
             Throw e \<Rightarrow> Throw e
           | Normal t \<Rightarrow> Normal (before @ t @ after))"

section \<open>The credential validator\<close>

text \<open>
  \<^verbatim>\<open>validateApiKey\<close> reads the module-level client \<^verbatim>\<open>stripe\<close>, here its argument.
  It returns a message or \<^verbatim>\<open>null\<close>; it throws when \<^verbatim>\<open>stripe.StripeResource\<close> is
  missing, and when the key is truthy but not a string, which has no \<^verbatim>\<open>startsWith\<close>.
\<close>

definition bind_c :: "'a completion \<Rightarrow> ('a \<Rightarrow> 'b completion) \<Rightarrow> 'b completion" where
  "bind_c r f = (case r of Normal a \<Rightarrow> f a | Throw e \<Rightarrow> Throw e)"

definition startsWith :: "jsval \<Rightarrow> string \<Rightarrow> bool completion" where
  "startsWith key p =
     (case key of
        JStr s \<Rightarrow> Normal (prefix p s)
      | _ \<Rightarrow> Throw ''key.startsWith is not a function'')"

definition validateApiKey :: "jsval \<Rightarrow> jsval completion" where
  "validateApiKey stripe =
     (if \<not> truthy stripe
      then Normal (JStr ''Error: you provided an empty secret key. Please provide your test mode secret key.'')
      else
        bind_c (get_prop stripe ''StripeResource'') (\<lambda>sr.
        bind_c (get_prop sr ''STRIPE_SECRET_KEY'') (\<lambda>k.
        if \<not> truthy k
        then Normal (JStr ''Error: you provided an empty secret key. Please provide your test mode secret key.'')
        else
          bind_c (get_prop stripe ''StripeResource'') (\<lambda>sr2.
          bind_c (get_prop sr2 ''STRIPE_SECRET_KEY'') (\<lambda>key.
          bind_c (startsWith key ''pk_'') (\<lambda>pk.
          if pk then Normal (JStr ''Error: you used a publishable key. Use your test secret key.'')
          else
            bind_c (startsWith key ''sk_live'') (\<lambda>live.
            if live
            then Normal (JStr ''Error: you used a live mode secret key. Use your test mode secret key.'')
            else Normal JNull)))))))"

text \<open>
  The module-level client, lines 19 to 24:
  \<^verbatim>\<open>const stripe = new Stripe(<key>, { apiVersion: "2020-03-02" })\<close>, where the key is
  \<^verbatim>\<open>process.env.STRIPE_SECRET_KEY\<close> when \<^verbatim>\<open>process.env.STRIPE_ENV\<close> is
  \<^verbatim>\<open>"production"\<close> and \<^verbatim>\<open>process.env.STRIPE_TEST_SECRET_KEY\<close> otherwise. The
  environment gives each name a string or \<^verbatim>\<open>undefined\<close>. The constructor \<^verbatim>\<open>Stripe\<close>
  belongs to the vendor SDK and is a parameter; this is the only place where the source
  hands the configured key to anything.
\<close>

type_synonym env = "string \<Rightarrow> jsval"

definition configured_key :: "env \<Rightarrow> jsval" where
  "configured_key env =
     (if env ''STRIPE_ENV'' = JStr ''production''
      then env ''STRIPE_SECRET_KEY''
      else env ''STRIPE_TEST_SECRET_KEY'')"

definition stripe_client :: "(jsval \<Rightarrow> jsval \<Rightarrow> jsval) \<Rightarrow> env \<Rightarrow> jsval" where
  "stripe_client Stripe env = Stripe (configured_key env) (JObj [(''apiVersion'', JStr ''2020-03-02'')])"

section \<open>The route handlers\<close>

record request =
  body :: jsval

text \<open>\<^verbatim>\<open>app.get("/", ...)\<close>\<close>

definition root :: "'s vendor \<Rightarrow> request \<Rightarrow> ('s, unit) io" where
  "root vendor req = respond 200 (File ''index.html'')"

text \<open>\<^verbatim>\<open>app.get("/test", ...)\<close>\<close>

definition test :: "'s vendor \<Rightarrow> request \<Rightarrow> ('s, unit) io" where
  "test vendor req = respond 200 (Json (JObj [(''data'', JStr ''hello worlds'')]))"

text \<open>\<^verbatim>\<open>app.post("/register_reader", ...)\<close>\<close>

definition register_reader :: "'s vendor \<Rightarrow> request \<Rightarrow> ('s, unit) io" where
  "register_reader vendor req =
     try_catch
       (and_then (read (body req) ''registration_code'') (\<lambda>registration_code.
        and_then (read (body req) ''label'') (\<lambda>label.
        and_then (read (body req) ''location'') (\<lambda>location.
        and_then (await vendor (ReadersCreate (JObj
          [(''registration_code'', registration_code),
           (''label'', label),
           (''location'', location)]))) (\<lambda>reader.
        and_then (read reader ''id'') (\<lambda>reader_id.
        and_then (template ''Reader registered: '' reader_id '''') (\<lambda>message.
        and_then (logInfo message) (\<lambda>_.
        respond 200 (Json reader)))))))))
       (\<lambda>err_message.
        and_then (logInfo (''Error registering reader! '' @ err_message)) (\<lambda>msg.
        respond 402 (Text msg)))"

text \<open>\<^verbatim>\<open>app.post("/connection_token", ...)\<close>\<close>

definition connection_token :: "'s vendor \<Rightarrow> request \<Rightarrow> ('s, unit) io" where
  "connection_token vendor req =
     try_catch
       (and_then (await vendor ConnectionTokensCreate) (\<lambda>token.
        and_then (read token ''secret'') (\<lambda>secret.
        respond 200 (Json (JObj [(''secret'', secret)])))))
       (\<lambda>err_message.
        and_then (logInfo (''Error creating ConnectionToken! '' @ err_message)) (\<lambda>msg.
        respond 402 (Text msg)))"

text \<open>\<^verbatim>\<open>app.post("/create_payment_intent", ...)\<close>\<close>

definition create_payment_intent :: "'s vendor \<Rightarrow> request \<Rightarrow> ('s, unit) io" where
  "create_payment_intent vendor req =
     try_catch
       (and_then (read (body req) ''payment_method_types'') (\<lambda>payment_method_types.
        and_then (read (body req) ''capture_method'') (\<lambda>capture_method.
        and_then (read (body req) ''amount'') (\<lambda>amount.
        and_then (read (body req) ''currency'') (\<lambda>currency.
        and_then (read (body req) ''description'') (\<lambda>description.
        and_then (read (body req) ''payment_method_options'') (\<lambda>payment_method_options.
        and_then (read (body req) ''receipt_email'') (\<lambda>receipt_email.
        and_then (await vendor (PaymentIntentsCreate (JObj
          [(''payment_method_types'', js_or payment_method_types (JArr [JStr ''card_present''])),
           (''capture_method'', js_or capture_method (JStr ''manual'')),
           (''amount'', amount),
           (''currency'', js_or currency (JStr ''gbp'')),
           (''description'', js_or description (JStr ''Example PaymentIntent'')),
           (''payment_method_options'', js_or payment_method_options (JObj [])),
           (''receipt_email'', receipt_email)]))) (\<lambda>paymentIntent.
        and_then (read paymentIntent ''id'') (\<lambda>logged_id.
        and_then (template ''PaymentIntent created: '' logged_id '''') (\<lambda>message.
        and_then (logInfo message) (\<lambda>_.
        and_then (read paymentIntent ''id'') (\<lambda>intent.
        and_then (read paymentIntent ''client_secret'') (\<lambda>secret.
        respond 200 (Json (JObj [(''intent'', intent), (''secret'', secret)]))))))))))))))))
       (\<lambda>err_message.
        and_then (logInfo (''Error creating PaymentIntent! '' @ err_message)) (\<lambda>msg.
        respond 402 (Text msg)))"

text \<open>\<^verbatim>\<open>app.post("/capture_payment_intent", ...)\<close>\<close>

definition capture_payment_intent :: "'s vendor \<Rightarrow> request \<Rightarrow> ('s, unit) io" where
  "capture_payment_intent vendor req =
     try_catch
       (and_then (lift (destructure (body req) ''req.body'' ''payment_intent_id'')) (\<lambda>payment_intent_id.
        and_then (lift (destructure (body req) ''req.body'' ''amount_to_capture'')) (\<lambda>amount_to_capture.
        and_then (await vendor (PaymentIntentsCapture payment_intent_id (JObj
          [(''amount_to_capture'', amount_to_capture)]))) (\<lambda>paymentIntent.
        and_then (template ''PaymentIntent captured: '' payment_intent_id '''') (\<lambda>message.
        and_then (logInfo message) (\<lambda>_.
        and_then (read paymentIntent ''id'') (\<lambda>intent.
        and_then (read paymentIntent ''client_secret'') (\<lambda>secret.
        respond 200 (Json (JObj [(''intent'', intent), (''secret'', secret)]))))))))))
       (\<lambda>err_message.
        and_then (logInfo (''Error capturing PaymentIntent! '' @ err_message)) (\<lambda>msg.
        respond 402 (Text msg)))"

text \<open>\<^verbatim>\<open>app.post("/cancel_payment_intent", ...)\<close>\<close>

definition cancel_payment_intent :: "'s vendor \<Rightarrow> request \<Rightarrow> ('s, unit) io" where
  "cancel_payment_intent vendor req =
     try_catch
       (and_then (lift (destructure (body req) ''req.body'' ''payment_intent_id'')) (\<lambda>payment_intent_id.
        and_then (await vendor (PaymentIntentsCancel payment_intent_id)) (\<lambda>paymentIntent.
        and_then (template ''PaymentIntent canceled: '' payment_intent_id '''') (\<lambda>message.
        and_then (logInfo message) (\<lambda>_.
        and_then (read paymentIntent ''id'') (\<lambda>intent.
        and_then (read paymentIntent ''client_secret'') (\<lambda>secret.
        respond 200 (Json (JObj [(''intent'', intent), (''secret'', secret)])))))))))
       (\<lambda>err_message.
        and_then (logInfo (''Error canceling PaymentIntent! '' @ err_message)) (\<lambda>msg.
        respond 402 (Text msg)))"

text \<open>\<^verbatim>\<open>app.post("/create_setup_intent", ...)\<close>\<close>

definition create_setup_intent :: "'s vendor \<Rightarrow> request \<Rightarrow> ('s, unit) io" where
  "create_setup_intent vendor req =
     try_catch
       (and_then (read (body req) ''payment_method_types'') (\<lambda>payment_method_types.
        and_then (read (body req) ''customer'') (\<lambda>customer.
        and_then (read (body req) ''description'') (\<lambda>description.
        and_then (read (body req) ''on_behalf_of'') (\<lambda>on_behalf_of.
        and_then (await vendor (SetupIntentsCreate (JObj
          [(''payment_method_types'', js_or payment_method_types (JArr [JStr ''card_present''])),
           (''customer'', customer),
           (''description'', description),
           (''on_behalf_of'', on_behalf_of)]))) (\<lambda>setupIntent.
        and_then (read setupIntent ''id'') (\<lambda>logged_id.
        and_then (template ''SetupIntent created: '' logged_id '''') (\<lambda>message.
        and_then (logInfo message) (\<lambda>_.
        and_then (read setupIntent ''id'') (\<lambda>intent.
        and_then (read setupIntent ''client_secret'') (\<lambda>secret.
        respond 200 (Json (JObj [(''intent'', intent), (''secret'', secret)])))))))))))))
       (\<lambda>err_message.
        and_then (logInfo (''Error creating SetupIntent! '' @ err_message)) (\<lambda>msg.
        respond 402 (Text msg)))"

text \<open>
  \<^verbatim>\<open>async function lookupOrCreateExampleCustomer()\<close>: the list call, then either the
  first element of its \<^verbatim>\<open>data\<close> or the result of the create call.
\<close>

definition lookupOrCreateExampleCustomer :: "'s vendor \<Rightarrow> ('s, jsval) io" where
  "lookupOrCreateExampleCustomer vendor =
     and_then (await vendor (CustomersList (JObj
       [(''email'', JStr ''example@test.com''), (''limit'', JNum 1)]))) (\<lambda>customers.
     and_then (read customers ''data'') (\<lambda>data.
     and_then (read data ''length'') (\<lambda>len.
     if truthy len
     then and_then (read customers ''data'') (\<lambda>data'. lift (get_index data' 0))
     else await vendor (CustomersCreate (JObj [(''email'', JStr ''example@test.com'')])))))"

text \<open>\<^verbatim>\<open>app.post("/attach_payment_method_to_customer", ...)\<close>\<close>

definition attach_payment_method_to_customer :: "'s vendor \<Rightarrow> request \<Rightarrow> ('s, unit) io" where
  "attach_payment_method_to_customer vendor req =
     try_catch
       (and_then (lookupOrCreateExampleCustomer vendor) (\<lambda>customer.
        and_then (read (body req) ''payment_method_id'') (\<lambda>payment_method_id.
        and_then (read customer ''id'') (\<lambda>customer_id.
        and_then (await vendor (PaymentMethodsAttach payment_method_id (JObj
          [(''customer'', customer_id), (''expand'', JArr [JStr ''customer''])]))) (\<lambda>paymentMethod.
        and_then (read customer ''id'') (\<lambda>logged_id.
        and_then (template ''Attached PaymentMethod to Customer: '' logged_id '''') (\<lambda>message.
        and_then (logInfo message) (\<lambda>_.
        respond 200 (Json paymentMethod)))))))))
       (\<lambda>err_message.
        and_then (logInfo (''Error attaching PaymentMethod! '' @ err_message)) (\<lambda>msg.
        respond 402 (Text msg)))"

text \<open>
  \<^verbatim>\<open>app.post("/update_payment_intent", ...)\<close>. The destructuring and the check of
  \<^verbatim>\<open>payment_intent_id\<close> are outside the \<^verbatim>\<open>try\<close>: a throw there leaves the handler
  without a response.
\<close>

definition update_payment_intent :: "'s vendor \<Rightarrow> request \<Rightarrow> ('s, unit) io" where
  "update_payment_intent vendor req =
     and_then (lift (destructure (body req) ''req.body'' ''payment_intent_id'')) (\<lambda>payment_intent_id.
     and_then (lift (destructure (body req) ''req.body'' ''receipt_email'')) (\<lambda>receipt_email.
     if \<not> truthy payment_intent_id
     then and_then (logInfo ([CHR 0x27] @ ''payment_intent_id'' @ [CHR 0x27] @ '' is required'')) (\<lambda>msg.
          respond 400 (Text msg))
     else
       try_catch
         (and_then (await vendor (PaymentIntentsUpdate payment_intent_id (JObj
            [(''receipt_email'', receipt_email)]))) (\<lambda>paymentIntent.
          and_then (template ''Updated PaymentIntent '' payment_intent_id '''') (\<lambda>message.
          and_then (logInfo message) (\<lambda>_.
          and_then (read paymentIntent ''id'') (\<lambda>intent.
          and_then (read paymentIntent ''client_secret'') (\<lambda>secret.
          respond 200 (Json (JObj [(''intent'', intent), (''secret'', secret)]))))))))
         (\<lambda>err_message.
          and_then (logInfo (''Error updating PaymentIntent! '' @ err_message)) (\<lambda>msg.
          respond 402 (Text msg)))))"

text \<open>\<^verbatim>\<open>app.get("/list_locations", ...)\<close>\<close>

definition list_locations :: "'s vendor \<Rightarrow> request \<Rightarrow> ('s, unit) io" where
  "list_locations vendor req =
     try_catch
       (and_then (await vendor (LocationsList (JObj [(''limit'', JNum 100)]))) (\<lambda>locations.
        and_then (read locations ''data'') (\<lambda>data.
        and_then (read data ''length'') (\<lambda>len.
        and_then (template '''' len '' Locations fetched'') (\<lambda>message.
        and_then (logInfo message) (\<lambda>_.
        and_then (read locations ''data'') (\<lambda>data'.
        respond 200 (Json data'))))))))
       (\<lambda>err_message.
        and_then (logInfo (''Error fetching Locations! '' @ err_message)) (\<lambda>msg.
        respond 402 (Text msg)))"

text \<open>\<^verbatim>\<open>app.post("/create_location", ...)\<close>\<close>

definition create_location :: "'s vendor \<Rightarrow> request \<Rightarrow> ('s, unit) io" where
  "create_location vendor req =
     try_catch
       (and_then (read (body req) ''display_name'') (\<lambda>display_name.
        and_then (read (body req) ''address'') (\<lambda>address.
        and_then (await vendor (LocationsCreate (JObj
          [(''display_name'', display_name), (''address'', address)]))) (\<lambda>location.
        and_then (read location ''id'') (\<lambda>location_id.
        and_then (template ''Location created: '' location_id '''') (\<lambda>message.
        and_then (logInfo message) (\<lambda>_.
        respond 200 (Json location))))))))
       (\<lambda>err_message.
        and_then (logInfo (''Error creating Location! '' @ err_message)) (\<lambda>msg.
        respond 402 (Text msg)))"

text \<open>The routes that \<^verbatim>\<open>app\<close> registers, and the handler of each.\<close>

datatype route =
    Root
  | Test
  | RegisterReader
  | ConnectionToken
  | CreatePaymentIntent
  | CapturePaymentIntent
  | CancelPaymentIntent
  | CreateSetupIntent
  | AttachPaymentMethodToCustomer
  | UpdatePaymentIntent
  | ListLocations
  | CreateLocation

fun handler :: "route \<Rightarrow> 's vendor \<Rightarrow> request \<Rightarrow> ('s, unit) io" where
  "handler Root = root"
| "handler Test = test"
| "handler RegisterReader = register_reader"
| "handler ConnectionToken = connection_token"
| "handler CreatePaymentIntent = create_payment_intent"
| "handler CapturePaymentIntent = capture_payment_intent"
| "handler CancelPaymentIntent = cancel_payment_intent"
| "handler CreateSetupIntent = create_setup_intent"
| "handler AttachPaymentMethodToCustomer = attach_payment_method_to_customer"
| "handler UpdatePaymentIntent = update_payment_intent"
| "handler ListLocations = list_locations"
| "handler CreateLocation = create_location"

text \<open>
  The events of one request, in order: the handler of the route run against a vendor in
  state \<open>s\<close>.
\<close>

definition serve :: "route \<Rightarrow> 's vendor \<Rightarrow> 's \<Rightarrow> request \<Rightarrow> event list" where
  "serve r vendor s req = fst (snd (handler r vendor req s))"

section \<open>Observations on a trace\<close>

text \<open>The vendor calls of a trace, in the order they were issued.\<close>

fun calls :: "event list \<Rightarrow> vendor_call list" where
  "calls [] = []"
| "calls (Call c r # es) = c # calls es"
| "calls (Log l # es) = calls es"
| "calls (Respond st b # es) = calls es"

text \<open>The log lines of a trace, in the order they were written.\<close>

fun logs :: "event list \<Rightarrow> string list" where
  "logs [] = []"
| "logs (Call c r # es) = logs es"
| "logs (Log l # es) = l # logs es"
| "logs (Respond st b # es) = logs es"

section \<open>Vocabulary of the properties\<close>


text \<open>
  No response is sent before a log line has been written: the first event of the trace
  that is not a vendor call, if there is one, is a log line.
\<close>

fun logged_before_response :: "event list \<Rightarrow> bool" where
  "logged_before_response [] = True"
| "logged_before_response (Call c r # es) = logged_before_response es"
| "logged_before_response (Log l # es) = True"
| "logged_before_response (Respond st b # es) = False"

text \<open>
  The fields in which the vendor returns a secret: \<^verbatim>\<open>client_secret\<close> of a payment intent
  or setup intent, \<^verbatim>\<open>secret\<close> of a connection token.
\<close>

definition secret_field :: "string \<Rightarrow> bool" where
  "secret_field k = (k = ''client_secret'' \<or> k = ''secret'')"

text \<open>The same vendor result with \<open>x\<close> in the place of the secret.\<close>

fun set_secret :: "jsval \<Rightarrow> jsval \<Rightarrow> jsval" where
  "set_secret x (JObj kvs) = JObj (map (\<lambda>(k, v). if secret_field k then (k, x) else (k, v)) kvs)"
| "set_secret x v = v"

text \<open>The same vendor, returning \<open>x\<close> in the place of every secret.\<close>

definition with_secret :: "jsval \<Rightarrow> 's vendor \<Rightarrow> 's vendor" where
  "with_secret x vendor s c =
     (case vendor s c of
        (Normal r, s') \<Rightarrow> (Normal (set_secret x r), s')
      | (Throw e, s') \<Rightarrow> (Throw e, s'))"

section \<open>Invariants of statements\<close>

text \<open>
  The properties of whole handlers are proved statement by statement. These are the
  invariants that the statements of a handler keep.
\<close>



text \<open>A statement that neither logs nor responds, and a statement that logs first.\<close>

definition quiet :: "('s, 'a) io \<Rightarrow> bool" where
  "quiet m = (\<forall>s. \<forall>e \<in> set (fst (snd (m s))). \<exists>c out. e = Call c out)"

definition logs_first :: "('s, 'a) io \<Rightarrow> bool" where
  "logs_first m = (\<forall>s. logged_before_response (fst (snd (m s))))"

text \<open>Two values that differ in their secret fields at most.\<close>

definition low_eq :: "jsval \<Rightarrow> jsval \<Rightarrow> bool" where
  "low_eq a b =
     ((nullish a \<or> nullish b \<longrightarrow> a = b) \<and> (\<forall>k. \<not> secret_field k \<longrightarrow> field a k = field b k))"

fun same_outcome :: "('a \<Rightarrow> 'b \<Rightarrow> bool) \<Rightarrow> 'a completion \<Rightarrow> 'b completion \<Rightarrow> bool" where
  "same_outcome V (Normal a) (Normal b) = V a b"
| "same_outcome V (Throw e) (Throw e') = (e = e')"
| "same_outcome V (Normal a) (Throw e') = False"
| "same_outcome V (Throw e) (Normal b) = False"

text \<open>
  Two statements that, from the same vendor state, write the same log lines, leave the
  vendor in the same state, and either throw the same error or yield values related by
  \<open>V\<close>.
\<close>

definition sim :: "('a \<Rightarrow> 'b \<Rightarrow> bool) \<Rightarrow> ('s, 'a) io \<Rightarrow> ('s, 'b) io \<Rightarrow> bool" where
  "sim V m n =
     (\<forall>s. snd (snd (m s)) = snd (snd (n s)) \<and>
          logs (fst (snd (m s))) = logs (fst (snd (n s))) \<and>
          same_outcome V (fst (m s)) (fst (n s)))"

section \<open>Properties of the relay\<close>

lemmas io_defs = ret_def lift_def and_then_def try_catch_def emit_def await_def read_def
  respond_def logInfo_def template_def get_prop_def get_index_def destructure_def

subsection \<open>Running a handler step by step\<close>

lemma and_then_lift_Normal: "and_then (lift (Normal a)) f = f a"
  by (rule ext) (simp add: and_then_def lift_def split: prod.splits)

lemma read_value: "\<not> nullish v \<Longrightarrow> read v k = lift (Normal (field v k))"
  by (simp add: read_def get_prop_def)

lemma try_catch_await_head:
  "\<exists>out rest. fst (snd (try_catch (and_then (await vendor c) f) h s)) = Call c out # rest"
  by (auto simp: try_catch_def and_then_def await_def split: prod.splits completion.splits)

subsection \<open>A failing vendor call ends the \<^verbatim>\<open>try\<close> block\<close>











lemma catch_402:
  "and_then (logInfo (p @ e)) (\<lambda>msg. respond 402 (Text msg)) s =
     (Normal (), [Log ([CHR 0x0A] @ p @ e @ [CHR 0x0A]), Respond 402 (Text (p @ e))], s)"
  by (simp add: and_then_def logInfo_def emit_def ret_def respond_def)


subsection \<open>The health check\<close>

text \<open>
  C9: for every request, every vendor and every vendor state, \<^verbatim>\<open>GET /test\<close> does one
  thing only: it responds with status 200 and the JSON body \<^verbatim>\<open>{"data": "hello worlds"}\<close>.
  No vendor call is issued, and nothing the handler does depends on the vendor client or
  its credential.
\<close>

theorem test_responds_hello_worlds:
  "serve Test vendor s req = [Respond 200 (Json (JObj [(''data'', JStr ''hello worlds'')]))]"
  by (simp add: serve_def test_def io_defs)

theorem test_responds_hello_worlds_witness:
  "serve Test (\<lambda>s c. (Throw ''unreachable'', s)) () \<lparr>body = JUndefined\<rparr> =
     [Respond 200 (Json (JObj [(''data'', JStr ''hello worlds'')]))] \<and>
   calls (serve Test (\<lambda>s c. (Throw ''unreachable'', s)) () \<lparr>body = JUndefined\<rparr>) = []"
  using test_responds_hello_worlds [of "\<lambda>s c. (Throw ''unreachable'', s)" "()" "\<lparr>body = JUndefined\<rparr>"]
  by simp

subsection \<open>The credential validator\<close>

text \<open>
  What the validator does with the value \<open>k\<close> that it reads at
  \<^verbatim>\<open>stripe.StripeResource.STRIPE_SECRET_KEY\<close>: a missing or empty \<open>k\<close> gets the empty-key
  message, a string that starts with \<^verbatim>\<open>pk_\<close> the publishable-key message, one that
  starts with \<^verbatim>\<open>sk_live\<close> the live-mode message, and every other string \<^verbatim>\<open>null\<close>.
\<close>

lemma validateApiKey_on_stored_key:
  assumes "truthy stripe"
    and "get_prop stripe ''StripeResource'' = Normal sr"
    and "get_prop sr ''STRIPE_SECRET_KEY'' = Normal k"
  shows "(k = JUndefined \<longrightarrow> validateApiKey stripe =
            Normal (JStr ''Error: you provided an empty secret key. Please provide your test mode secret key.'')) \<and>
         (\<forall>key. k = JStr key \<longrightarrow> validateApiKey stripe = Normal
            (if key = [] then JStr ''Error: you provided an empty secret key. Please provide your test mode secret key.''
             else if prefix ''pk_'' key then JStr ''Error: you used a publishable key. Use your test secret key.''
             else if prefix ''sk_live'' key then JStr ''Error: you used a live mode secret key. Use your test mode secret key.''
             else JNull))"
  using assms by (simp add: validateApiKey_def bind_c_def startsWith_def)

text \<open>
  C5, where the code departs from the claim: the validator does not look at the configured
  secret key. It reads \<^verbatim>\<open>stripe.StripeResource.STRIPE_SECRET_KEY\<close> of the client, and the
  source stores nothing there: it only passes the configured key to the constructor. So
  for every environment, whatever key it configures, the verdict on a client whose
  \<^verbatim>\<open>StripeResource\<close> has no truthy \<^verbatim>\<open>STRIPE_SECRET_KEY\<close> is the empty-key message, and
  on a client without \<^verbatim>\<open>StripeResource\<close> the validator throws; a well-formed test key
  is not accepted.
\<close>

theorem validateApiKey_misses_configured_key:
  assumes "truthy (stripe_client Stripe env)"
    and "get_prop (stripe_client Stripe env) ''StripeResource'' = Normal sr"
  shows "(nullish sr \<longrightarrow>
            validateApiKey (stripe_client Stripe env) = Throw (type_error sr ''STRIPE_SECRET_KEY'')) \<and>
         (\<not> nullish sr \<and> \<not> truthy (field sr ''STRIPE_SECRET_KEY'') \<longrightarrow>
            validateApiKey (stripe_client Stripe env) =
              Normal (JStr ''Error: you provided an empty secret key. Please provide your test mode secret key.''))"
  using assms by (simp add: validateApiKey_def bind_c_def get_prop_def)

theorem validateApiKey_misses_configured_key_witness:
  "configured_key (\<lambda>name. if name = ''STRIPE_TEST_SECRET_KEY'' then JStr ''sk_test_123'' else JUndefined)
     = JStr ''sk_test_123'' \<and>
   validateApiKey (stripe_client
      (\<lambda>key config. JObj [(''_api'', JObj [(''auth'', key), (''version'', field config ''apiVersion'')]),
                          (''StripeResource'', JObj [])])
      (\<lambda>name. if name = ''STRIPE_TEST_SECRET_KEY'' then JStr ''sk_test_123'' else JUndefined)) =
     Normal (JStr ''Error: you provided an empty secret key. Please provide your test mode secret key.'') \<and>
   validateApiKey (stripe_client
      (\<lambda>key config. JObj [(''_api'', JObj [(''auth'', key), (''version'', field config ''apiVersion'')])])
      (\<lambda>name. if name = ''STRIPE_TEST_SECRET_KEY'' then JStr ''sk_test_123'' else JUndefined)) =
     Throw (type_error JUndefined ''STRIPE_SECRET_KEY'')"
  using
    validateApiKey_misses_configured_key [where
      Stripe = "\<lambda>key config. JObj [(''_api'', JObj [(''auth'', key), (''version'', field config ''apiVersion'')]),
                          (''StripeResource'', JObj [])]"
      and env = "\<lambda>name. if name = ''STRIPE_TEST_SECRET_KEY'' then JStr ''sk_test_123'' else JUndefined"
      and sr = "JObj []"]
    validateApiKey_misses_configured_key [where
      Stripe = "\<lambda>key config. JObj [(''_api'', JObj [(''auth'', key), (''version'', field config ''apiVersion'')])]"
      and env = "\<lambda>name. if name = ''STRIPE_TEST_SECRET_KEY'' then JStr ''sk_test_123'' else JUndefined"
      and sr = "JUndefined"]
  by (simp add: configured_key_def stripe_client_def get_prop_def nullish_def)

subsection \<open>Updating a payment intent\<close>

text \<open>
  C10: in the \<^verbatim>\<open>update_payment_intent\<close> handler a \<^verbatim>\<open>payment_intent_id\<close> that is falsy,
  whether it is absent from the body (\<^verbatim>\<open>undefined\<close>) or present as the empty string,
  \<^verbatim>\<open>0\<close>, \<^verbatim>\<open>false\<close> or \<^verbatim>\<open>null\<close>, gives the same trace: the message is logged, the
  response is HTTP 400 with that message as plain text, and no vendor call is issued.
\<close>

theorem update_payment_intent_falsy_id:
  assumes "get_prop (body req) ''payment_intent_id'' = Normal v" and "\<not> truthy v"
  shows "serve UpdatePaymentIntent vendor s req =
     [Log ([CHR 0x0A] @ [CHR 0x27] @ ''payment_intent_id'' @ [CHR 0x27] @ '' is required'' @ [CHR 0x0A]),
      Respond 400 (Text ([CHR 0x27] @ ''payment_intent_id'' @ [CHR 0x27] @ '' is required''))]"
  using assms by (simp add: serve_def update_payment_intent_def io_defs split: if_splits)

theorem update_payment_intent_falsy_id_witness:
  "get_prop (JObj [(''payment_intent_id'', JStr ''''), (''receipt_email'', JStr ''a@b.c'')]) ''payment_intent_id''
     = Normal (JStr '''') \<and>
   \<not> truthy (JStr '''') \<and>
   serve UpdatePaymentIntent (\<lambda>s c. (Normal (JObj [(''id'', JStr ''pi_1'')]), s)) ()
     \<lparr>body = JObj [(''payment_intent_id'', JStr ''''), (''receipt_email'', JStr ''a@b.c'')]\<rparr> =
     [Log ([CHR 0x0A] @ [CHR 0x27] @ ''payment_intent_id'' @ [CHR 0x27] @ '' is required'' @ [CHR 0x0A]),
      Respond 400 (Text ([CHR 0x27] @ ''payment_intent_id'' @ [CHR 0x27] @ '' is required''))] \<and>
   serve UpdatePaymentIntent (\<lambda>s c. (Normal (JObj [(''id'', JStr ''pi_1'')]), s)) ()
     \<lparr>body = JObj [(''payment_intent_id'', JStr ''''), (''receipt_email'', JStr ''a@b.c'')]\<rparr> =
   serve UpdatePaymentIntent (\<lambda>s c. (Normal (JObj [(''id'', JStr ''pi_1'')]), s)) ()
     \<lparr>body = JObj [(''receipt_email'', JStr ''a@b.c'')]\<rparr>"
  using
    update_payment_intent_falsy_id [of
      "\<lparr>body = JObj [(''payment_intent_id'', JStr ''''), (''receipt_email'', JStr ''a@b.c'')]\<rparr>"
      "JStr ''''" "\<lambda>s c. (Normal (JObj [(''id'', JStr ''pi_1'')]), s)" "()"]
    update_payment_intent_falsy_id [of
      "\<lparr>body = JObj [(''receipt_email'', JStr ''a@b.c'')]\<rparr>"
      "JUndefined" "\<lambda>s c. (Normal (JObj [(''id'', JStr ''pi_1'')]), s)" "()"]
  by (simp add: get_prop_def nullish_def)

text \<open>
  C3, as the code has it: when the request body is an object without a
  \<^verbatim>\<open>payment_intent_id\<close> field, the handler logs the message, responds HTTP 400 with it
  as plain text and issues no vendor call; when the body supplies a truthy
  \<^verbatim>\<open>payment_intent_id\<close>, the first thing the handler does is the vendor update call,
  on that id and with the \<^verbatim>\<open>receipt_email\<close> of the body as its only parameter.
\<close>

theorem update_payment_intent_requires_id:
  assumes "body req = JObj kvs"
  shows "(map_of kvs ''payment_intent_id'' = None \<longrightarrow>
            serve UpdatePaymentIntent vendor s req =
              [Log ([CHR 0x0A] @ [CHR 0x27] @ ''payment_intent_id'' @ [CHR 0x27] @ '' is required'' @ [CHR 0x0A]),
               Respond 400 (Text ([CHR 0x27] @ ''payment_intent_id'' @ [CHR 0x27] @ '' is required''))]) \<and>
         (\<forall>v. map_of kvs ''payment_intent_id'' = Some v \<and> truthy v \<longrightarrow>
            (\<exists>out rest. serve UpdatePaymentIntent vendor s req =
               Call (PaymentIntentsUpdate v (JObj [(''receipt_email'', field (JObj kvs) ''receipt_email'')])) out # rest))"
  using assms
  by (auto simp: serve_def update_payment_intent_def io_defs nullish_def
           split: prod.splits completion.splits option.splits)

theorem update_payment_intent_requires_id_witness:
  "serve UpdatePaymentIntent (\<lambda>s c. (Normal (JObj [(''id'', JStr ''pi_1'')]), s)) () \<lparr>body = JObj []\<rparr> =
     [Log ([CHR 0x0A] @ [CHR 0x27] @ ''payment_intent_id'' @ [CHR 0x27] @ '' is required'' @ [CHR 0x0A]),
      Respond 400 (Text ([CHR 0x27] @ ''payment_intent_id'' @ [CHR 0x27] @ '' is required''))] \<and>
   map_of [(''payment_intent_id'', JStr ''pi_1''), (''receipt_email'', JStr ''a@b.c'')] ''payment_intent_id''
     = Some (JStr ''pi_1'') \<and>
   truthy (JStr ''pi_1'') \<and>
   (\<exists>out rest.
      serve UpdatePaymentIntent (\<lambda>s c. (Normal (JObj [(''id'', JStr ''pi_1'')]), s)) ()
        \<lparr>body = JObj [(''payment_intent_id'', JStr ''pi_1''), (''receipt_email'', JStr ''a@b.c'')]\<rparr> =
      Call (PaymentIntentsUpdate (JStr ''pi_1'') (JObj [(''receipt_email'', JStr ''a@b.c'')])) out # rest)"
  using
    update_payment_intent_requires_id [where req = "\<lparr>body = JObj []\<rparr>" and kvs = "[]"
      and vendor = "\<lambda>s c. (Normal (JObj [(''id'', JStr ''pi_1'')]), s)" and s = "()"]
    update_payment_intent_requires_id [where
      req = "\<lparr>body = JObj [(''payment_intent_id'', JStr ''pi_1''), (''receipt_email'', JStr ''a@b.c'')]\<rparr>"
      and kvs = "[(''payment_intent_id'', JStr ''pi_1''), (''receipt_email'', JStr ''a@b.c'')]"
      and vendor = "\<lambda>s c. (Normal (JObj [(''id'', JStr ''pi_1'')]), s)" and s = "()"]
  by simp

text \<open>
  A body that supplies \<^verbatim>\<open>payment_intent_id\<close> as the empty string, together with a
  \<^verbatim>\<open>receipt_email\<close>: no vendor call is issued.
\<close>

theorem update_payment_intent_empty_id_counterexample:
  "map_of [(''payment_intent_id'', JStr ''''), (''receipt_email'', JStr ''a@b.c'')] ''payment_intent_id''
     = Some (JStr '''') \<and>
   calls (serve UpdatePaymentIntent (\<lambda>s c. (Normal (JObj [(''id'', JStr ''pi_1'')]), s)) ()
     \<lparr>body = JObj [(''payment_intent_id'', JStr ''''), (''receipt_email'', JStr ''a@b.c'')]\<rparr>) = []"
  by (simp add: serve_def update_payment_intent_def io_defs nullish_def)

subsection \<open>Listing locations\<close>

text \<open>
  C7: the \<^verbatim>\<open>list_locations\<close> handler starts with the vendor list call with
  \<^verbatim>\<open>limit: 100\<close> and issues no other call. Whenever it responds with status 200, the
  body is the \<^verbatim>\<open>data\<close> of the vendor's result; and when the vendor's result has an array
  as its \<^verbatim>\<open>data\<close>, the handler logs the number of elements and responds with status 200
  and exactly that array, the same elements in the same order.
\<close>

theorem list_locations_relays_data:
  assumes "vendor s (LocationsList (JObj [(''limit'', JNum 100)])) = (out, s')"
  shows "\<exists>rest. serve ListLocations vendor s req =
             Call (LocationsList (JObj [(''limit'', JNum 100)])) out # rest \<and>
           calls rest = [] \<and>
           (\<forall>b. Respond 200 b \<in> set rest \<longrightarrow> (\<exists>r. out = Normal r \<and> b = Json (field r ''data''))) \<and>
           (\<forall>r xs. out = Normal r \<and> field r ''data'' = JArr xs \<longrightarrow>
              rest = [Log ([CHR 0x0A] @ dec (length xs) @ '' Locations fetched'' @ [CHR 0x0A]),
                      Respond 200 (Json (JArr xs))])"
proof (cases out)
  case (Throw e)
  with assms show ?thesis
    by (simp add: serve_def list_locations_def io_defs)
next
  case (Normal r)
  show ?thesis
  proof (cases "to_string (field (field r ''data'') ''length'')")
    case (Throw e)
    with assms Normal show ?thesis
      by (auto simp: serve_def list_locations_def io_defs nullish_def)
  next
    case (Normal t)
    with assms \<open>out = Normal r\<close> show ?thesis
      by (auto simp: serve_def list_locations_def io_defs nullish_def dec_int_def)
  qed
qed

theorem list_locations_relays_data_witness:
  "serve ListLocations
     (\<lambda>s c. (Normal (JObj [(''data'', JArr [JObj [(''id'', JStr ''tml_1'')], JObj [(''id'', JStr ''tml_2'')]])]), s))
     () \<lparr>body = JObj []\<rparr> =
   [Call (LocationsList (JObj [(''limit'', JNum 100)]))
      (Normal (JObj [(''data'', JArr [JObj [(''id'', JStr ''tml_1'')], JObj [(''id'', JStr ''tml_2'')]])])),
    Log ([CHR 0x0A] @ ''2 Locations fetched'' @ [CHR 0x0A]),
    Respond 200 (Json (JArr [JObj [(''id'', JStr ''tml_1'')], JObj [(''id'', JStr ''tml_2'')]]))]"
  using list_locations_relays_data [where
    vendor = "\<lambda>s c. (Normal (JObj [(''data'', JArr [JObj [(''id'', JStr ''tml_1'')], JObj [(''id'', JStr ''tml_2'')]])]), s)"
    and s = "()" and s' = "()" and req = "\<lparr>body = JObj []\<rparr>"
    and out = "Normal (JObj [(''data'', JArr [JObj [(''id'', JStr ''tml_1'')], JObj [(''id'', JStr ''tml_2'')]])])"]
  by (auto simp: dec.simps)

subsection \<open>Creating a payment intent\<close>

lemma create_payment_intent_head:
  assumes "body req = JObj kvs"
  shows "\<exists>out rest.
           serve CreatePaymentIntent vendor s req = Call (PaymentIntentsCreate (JObj
          [(''payment_method_types'', js_or (field (JObj kvs) ''payment_method_types'') (JArr [JStr ''card_present''])),
           (''capture_method'', js_or (field (JObj kvs) ''capture_method'') (JStr ''manual'')),
           (''amount'', field (JObj kvs) ''amount''),
           (''currency'', js_or (field (JObj kvs) ''currency'') (JStr ''gbp'')),
           (''description'', js_or (field (JObj kvs) ''description'') (JStr ''Example PaymentIntent'')),
           (''payment_method_options'', js_or (field (JObj kvs) ''payment_method_options'') (JObj [])),
           (''receipt_email'', field (JObj kvs) ''receipt_email'')])) out # rest"
  unfolding serve_def handler.simps create_payment_intent_def assms
  by (simp only: read_value [of "JObj kvs"] nullish_def jsval.distinct simp_thms
        and_then_lift_Normal try_catch_await_head)

text \<open>
  C2, as the code has it: for every body that is a JSON object, the first thing the
  \<^verbatim>\<open>create_payment_intent\<close> handler does is the vendor call that creates a payment
  intent. In its parameters each of \<^verbatim>\<open>payment_method_types\<close>, \<^verbatim>\<open>capture_method\<close>,
  \<^verbatim>\<open>currency\<close> and \<^verbatim>\<open>description\<close> is the caller's value when the caller supplied a
  truthy one, and the default (\<^verbatim>\<open>["card_present"]\<close>, \<^verbatim>\<open>manual\<close>, \<^verbatim>\<open>gbp\<close>,
  \<^verbatim>\<open>Example PaymentIntent\<close>) when the field is absent or falsy; \<^verbatim>\<open>amount\<close> and
  \<^verbatim>\<open>receipt_email\<close> are passed as they are. For a body that holds \<^verbatim>\<open>amount\<close> only,
  the parameters are the four defaults, the amount, empty payment method options and an
  undefined receipt email.
\<close>

theorem create_payment_intent_defaults:
  assumes "body req = JObj kvs"
  shows "\<exists>params out rest.
           serve CreatePaymentIntent vendor s req = Call (PaymentIntentsCreate (JObj params)) out # rest \<and>
           (\<forall>k d. (k, d) \<in> set [(''payment_method_types'', JArr [JStr ''card_present'']),
                                 (''capture_method'', JStr ''manual''),
                                 (''currency'', JStr ''gbp''),
                                 (''description'', JStr ''Example PaymentIntent'')] \<longrightarrow>
              map_of params k =
                Some (case map_of kvs k of None \<Rightarrow> d | Some v \<Rightarrow> if truthy v then v else d)) \<and>
           map_of params ''amount'' = Some (field (JObj kvs) ''amount'') \<and>
           map_of params ''receipt_email'' = Some (field (JObj kvs) ''receipt_email'') \<and>
           (\<forall>a. kvs = [(''amount'', a)] \<longrightarrow>
              params = [(''payment_method_types'', JArr [JStr ''card_present'']),
                        (''capture_method'', JStr ''manual''),
                        (''amount'', a),
                        (''currency'', JStr ''gbp''),
                        (''description'', JStr ''Example PaymentIntent''),
                        (''payment_method_options'', JObj []),
                        (''receipt_email'', JUndefined)])"
proof -
  let ?params = "[(''payment_method_types'', js_or (field (JObj kvs) ''payment_method_types'') (JArr [JStr ''card_present''])),
           (''capture_method'', js_or (field (JObj kvs) ''capture_method'') (JStr ''manual'')),
           (''amount'', field (JObj kvs) ''amount''),
           (''currency'', js_or (field (JObj kvs) ''currency'') (JStr ''gbp'')),
           (''description'', js_or (field (JObj kvs) ''description'') (JStr ''Example PaymentIntent'')),
           (''payment_method_options'', js_or (field (JObj kvs) ''payment_method_options'') (JObj [])),
           (''receipt_email'', field (JObj kvs) ''receipt_email'')]"
  from create_payment_intent_head [OF assms, of vendor s] obtain out rest where
    tr: "serve CreatePaymentIntent vendor s req = Call (PaymentIntentsCreate (JObj ?params)) out # rest"
    by blast
  have defaults: "\<forall>k d. (k, d) \<in> set [(''payment_method_types'', JArr [JStr ''card_present'']),
                                 (''capture_method'', JStr ''manual''),
                                 (''currency'', JStr ''gbp''),
                                 (''description'', JStr ''Example PaymentIntent'')] \<longrightarrow>
              map_of ?params k =
                Some (case map_of kvs k of None \<Rightarrow> d | Some v \<Rightarrow> if truthy v then v else d)"
    by (auto simp: js_or_def split: option.splits)
  have amount: "map_of ?params ''amount'' = Some (field (JObj kvs) ''amount'')"
    by simp
  have email: "map_of ?params ''receipt_email'' = Some (field (JObj kvs) ''receipt_email'')"
    by simp
  have only: "\<forall>a. kvs = [(''amount'', a)] \<longrightarrow>
              ?params = [(''payment_method_types'', JArr [JStr ''card_present'']),
                        (''capture_method'', JStr ''manual''),
                        (''amount'', a),
                        (''currency'', JStr ''gbp''),
                        (''description'', JStr ''Example PaymentIntent''),
                        (''payment_method_options'', JObj []),
                        (''receipt_email'', JUndefined)]"
    by (simp add: js_or_def)
  from tr defaults amount email only show ?thesis
    by blast
qed

theorem create_payment_intent_defaults_witness:
  "body \<lparr>body = JObj [(''amount'', JNum 1000)]\<rparr> = JObj [(''amount'', JNum 1000)] \<and>
   (\<exists>out rest.
      serve CreatePaymentIntent (\<lambda>s c. (Normal (JObj [(''id'', JStr ''pi_1'')]), s)) ()
        \<lparr>body = JObj [(''amount'', JNum 1000)]\<rparr> =
      Call (PaymentIntentsCreate (JObj
        [(''payment_method_types'', JArr [JStr ''card_present'']),
         (''capture_method'', JStr ''manual''),
         (''amount'', JNum 1000),
         (''currency'', JStr ''gbp''),
         (''description'', JStr ''Example PaymentIntent''),
         (''payment_method_options'', JObj []),
         (''receipt_email'', JUndefined)])) out # rest)"
  using
    create_payment_intent_defaults [where req = "\<lparr>body = JObj [(''amount'', JNum 1000)]\<rparr>"
      and kvs = "[(''amount'', JNum 1000)]"
      and vendor = "\<lambda>s c. (Normal (JObj [(''id'', JStr ''pi_1'')]), s)" and s = "()"]
  by auto

text \<open>
  A body that supplies \<^verbatim>\<open>description\<close> as the empty string: the vendor call carries
  the placeholder description, not the caller's value.
\<close>

theorem create_payment_intent_empty_description_counterexample:
  "field (JObj [(''amount'', JNum 1000), (''description'', JStr '''')]) ''description'' = JStr '''' \<and>
   calls (serve CreatePaymentIntent (\<lambda>s c. (Normal (JObj [(''id'', JStr ''pi_1'')]), s)) ()
            \<lparr>body = JObj [(''amount'', JNum 1000), (''description'', JStr '''')]\<rparr>) =
     [PaymentIntentsCreate (JObj
        [(''payment_method_types'', JArr [JStr ''card_present'']),
         (''capture_method'', JStr ''manual''),
         (''amount'', JNum 1000),
         (''currency'', JStr ''gbp''),
         (''description'', JStr ''Example PaymentIntent''),
         (''payment_method_options'', JObj []),
         (''receipt_email'', JUndefined)])]"
  by code_simp

subsection \<open>Vendor failures\<close>
















subsection \<open>Logging before responding\<close>

lemma logged_before_response_after_calls:
  assumes "\<forall>e \<in> set es. \<exists>c out. e = Call c out"
  shows "logged_before_response (es @ es') = logged_before_response es'"
  using assms by (induction es) auto

lemma logged_before_response_append:
  assumes "logged_before_response es" and "logged_before_response es'"
  shows "logged_before_response (es @ es')"
  using assms by (induction es rule: logged_before_response.induct) auto

lemma quiet_lift: "quiet (lift r)"
  by (simp add: quiet_def lift_def)

lemma quiet_read: "quiet (read v k)"
  by (simp add: read_def quiet_lift)

lemma quiet_template: "quiet (template before v after)"
  by (simp add: template_def quiet_lift)

lemma quiet_await: "quiet (await vendor c)"
  by (auto simp: quiet_def await_def split: prod.splits)

lemma quiet_and_then:
  assumes "quiet m" and "\<And>a. quiet (f a)"
  shows "quiet (and_then m f)"
  unfolding quiet_def
proof (intro allI ballI)
  fix s e
  assume mem: "e \<in> set (fst (snd (and_then m f s)))"
  obtain r es s' where ms: "m s = (r, es, s')"
    by (cases "m s") auto
  from assms(1) ms have es: "\<forall>e \<in> set es. \<exists>c out. e = Call c out"
    by (auto simp: quiet_def dest!: spec [of _ s])
  show "\<exists>c out. e = Call c out"
  proof (cases r)
    case (Throw x)
    with ms mem es show ?thesis
      by (auto simp: and_then_def)
  next
    case (Normal a)
    obtain r' es' s'' where fs: "f a s' = (r', es', s'')"
      by (cases "f a s'") auto
    from assms(2) [of a] fs have "\<forall>e \<in> set es'. \<exists>c out. e = Call c out"
      by (auto simp: quiet_def dest!: spec [of _ s'])
    with ms Normal fs mem es show ?thesis
      by (auto simp: and_then_def)
  qed
qed

lemma quiet_if:
  assumes "quiet m" and "quiet n"
  shows "quiet (if b then m else n)"
  using assms by simp

lemmas quiet_intros = quiet_and_then quiet_if quiet_lift quiet_read quiet_template quiet_await

lemma quiet_lookupOrCreateExampleCustomer: "quiet (lookupOrCreateExampleCustomer vendor)"
  unfolding lookupOrCreateExampleCustomer_def by (intro quiet_intros)

lemma logs_first_logInfo: "logs_first (and_then (logInfo x) f)"
  by (auto simp: logs_first_def and_then_def logInfo_def emit_def ret_def split: prod.splits)

lemma logs_first_and_then:
  assumes "quiet m" and "\<And>a. logs_first (f a)"
  shows "logs_first (and_then m f)"
  unfolding logs_first_def
proof
  fix s
  obtain r es s' where ms: "m s = (r, es, s')"
    by (cases "m s") auto
  from assms(1) ms have es: "\<forall>e \<in> set es. \<exists>c out. e = Call c out"
    by (auto simp: quiet_def dest!: spec [of _ s])
  show "logged_before_response (fst (snd (and_then m f s)))"
  proof (cases r)
    case (Throw x)
    with ms logged_before_response_after_calls [OF es, of "[]"] show ?thesis
      by (simp add: and_then_def)
  next
    case (Normal a)
    obtain r' es' s'' where fs: "f a s' = (r', es', s'')"
      by (cases "f a s'") auto
    from assms(2) [of a] fs have "logged_before_response es'"
      by (auto simp: logs_first_def dest!: spec [of _ s'])
    with ms Normal fs logged_before_response_after_calls [OF es, of es'] show ?thesis
      by (simp add: and_then_def)
  qed
qed

lemma logs_first_if:
  assumes "logs_first m" and "logs_first n"
  shows "logs_first (if b then m else n)"
  using assms by simp

lemma logs_first_try_catch:
  assumes "logs_first m"
  shows "logs_first (try_catch m (\<lambda>err. and_then (logInfo (p @ err)) (\<lambda>msg. respond 402 (Text msg))))"
  unfolding logs_first_def
proof
  fix s
  obtain r es s' where ms: "m s = (r, es, s')"
    by (cases "m s") auto
  from assms ms have es: "logged_before_response es"
    by (auto simp: logs_first_def dest!: spec [of _ s])
  show "logged_before_response (fst (snd (try_catch m
          (\<lambda>err. and_then (logInfo (p @ err)) (\<lambda>msg. respond 402 (Text msg))) s)))"
  proof (cases r)
    case (Normal a)
    with ms es show ?thesis
      by (simp add: try_catch_def)
  next
    case (Throw x)
    with ms logged_before_response_append [OF es, of "[Log ([CHR 0x0A] @ p @ x @ [CHR 0x0A]), Respond 402 (Text (p @ x))]"]
    show ?thesis
      by (simp add: try_catch_def catch_402)
  qed
qed

lemmas logs_first_intros = logs_first_try_catch logs_first_logInfo logs_first_and_then logs_first_if

lemma register_reader_logs_first: "logs_first (register_reader vendor req)"
  unfolding register_reader_def by (intro logs_first_intros quiet_intros)

lemma create_payment_intent_logs_first: "logs_first (create_payment_intent vendor req)"
  unfolding create_payment_intent_def by (intro logs_first_intros quiet_intros)

lemma capture_payment_intent_logs_first: "logs_first (capture_payment_intent vendor req)"
  unfolding capture_payment_intent_def by (intro logs_first_intros quiet_intros)

lemma cancel_payment_intent_logs_first: "logs_first (cancel_payment_intent vendor req)"
  unfolding cancel_payment_intent_def by (intro logs_first_intros quiet_intros)

lemma create_setup_intent_logs_first: "logs_first (create_setup_intent vendor req)"
  unfolding create_setup_intent_def by (intro logs_first_intros quiet_intros)

lemma attach_payment_method_to_customer_logs_first:
  "logs_first (attach_payment_method_to_customer vendor req)"
  unfolding attach_payment_method_to_customer_def
  by (intro logs_first_intros quiet_intros quiet_lookupOrCreateExampleCustomer)

lemma update_payment_intent_logs_first: "logs_first (update_payment_intent vendor req)"
  unfolding update_payment_intent_def by (intro logs_first_intros quiet_intros)

lemma list_locations_logs_first: "logs_first (list_locations vendor req)"
  unfolding list_locations_def by (intro logs_first_intros quiet_intros)

lemma create_location_logs_first: "logs_first (create_location vendor req)"
  unfolding create_location_def by (intro logs_first_intros quiet_intros)

lemma connection_token_failure_logged:
  assumes "\<forall>b. Respond 200 b \<notin> set (fst (snd (connection_token vendor req s)))"
  shows "logged_before_response (fst (snd (connection_token vendor req s)))"
  using assms
  by (cases "vendor s ConnectionTokensCreate")
     (auto simp: connection_token_def io_defs split: completion.splits)

text \<open>
  C6, as the code has it: on every route, an outcome that is not a 200 response is logged
  before the response is sent; and on every route but \<^verbatim>\<open>/\<close>, \<^verbatim>\<open>/test\<close> and
  \<^verbatim>\<open>/connection_token\<close> this holds of every outcome, the 200 response included. In the
  trace of such a request no response comes before the first log line.
\<close>

theorem outcome_logged_before_response:
  assumes "(\<forall>b. Respond 200 b \<notin> set (serve r vendor s req)) \<or> r \<notin> {Root, Test, ConnectionToken}"
  shows "logged_before_response (serve r vendor s req)"
proof (cases r)
  case Root
  with assms show ?thesis by (simp add: serve_def root_def respond_def emit_def)
next
  case Test
  with assms show ?thesis by (simp add: serve_def test_def respond_def emit_def)
next
  case ConnectionToken
  with assms show ?thesis by (simp add: serve_def connection_token_failure_logged)
next
  case RegisterReader
  with register_reader_logs_first [of vendor req] show ?thesis
    by (simp add: serve_def logs_first_def)
next
  case CreatePaymentIntent
  with create_payment_intent_logs_first [of vendor req] show ?thesis
    by (simp add: serve_def logs_first_def)
next
  case CapturePaymentIntent
  with capture_payment_intent_logs_first [of vendor req] show ?thesis
    by (simp add: serve_def logs_first_def)
next
  case CancelPaymentIntent
  with cancel_payment_intent_logs_first [of vendor req] show ?thesis
    by (simp add: serve_def logs_first_def)
next
  case CreateSetupIntent
  with create_setup_intent_logs_first [of vendor req] show ?thesis
    by (simp add: serve_def logs_first_def)
next
  case AttachPaymentMethodToCustomer
  with attach_payment_method_to_customer_logs_first [of vendor req] show ?thesis
    by (simp add: serve_def logs_first_def)
next
  case UpdatePaymentIntent
  with update_payment_intent_logs_first [of vendor req] show ?thesis
    by (simp add: serve_def logs_first_def)
next
  case ListLocations
  with list_locations_logs_first [of vendor req] show ?thesis
    by (simp add: serve_def logs_first_def)
next
  case CreateLocation
  with create_location_logs_first [of vendor req] show ?thesis
    by (simp add: serve_def logs_first_def)
qed

theorem outcome_logged_before_response_witness:
  "CapturePaymentIntent \<notin> {Root, Test, ConnectionToken} \<and>
   logged_before_response
     (serve CapturePaymentIntent (\<lambda>s c. (Normal (JObj [(''id'', JStr ''pi_1'')]), s)) ()
        \<lparr>body = JObj [(''payment_intent_id'', JStr ''pi_1'')]\<rparr>) \<and>
   (\<forall>b. Respond 200 b \<notin> set (serve ConnectionToken (\<lambda>s c. (Throw ''Invalid API Key'', s)) ()
        \<lparr>body = JObj []\<rparr>)) \<and>
   logged_before_response
     (serve ConnectionToken (\<lambda>s c. (Throw ''Invalid API Key'', s)) () \<lparr>body = JObj []\<rparr>)"
proof -
  have no200: "\<forall>b. Respond 200 b \<notin> set (serve ConnectionToken (\<lambda>s c. (Throw ''Invalid API Key'', s)) ()
        \<lparr>body = JObj []\<rparr>)"
    by (simp add: serve_def connection_token_def io_defs)
  from outcome_logged_before_response [where r = CapturePaymentIntent
      and vendor = "\<lambda>s c. (Normal (JObj [(''id'', JStr ''pi_1'')]), s)" and s = "()"
      and req = "\<lparr>body = JObj [(''payment_intent_id'', JStr ''pi_1'')]\<rparr>"]
    outcome_logged_before_response [where r = ConnectionToken
      and vendor = "\<lambda>s c. (Throw ''Invalid API Key'', s)" and s = "()"
      and req = "\<lparr>body = JObj []\<rparr>"]
    no200
  show ?thesis
    by simp
qed

text \<open>
  A connection token is created: the handler responds with status 200 and has written no
  log line.
\<close>

theorem connection_token_success_counterexample:
  "serve ConnectionToken (\<lambda>s c. (Normal (JObj [(''secret'', JStr ''pst_test_1'')]), s)) ()
     \<lparr>body = JObj []\<rparr> =
     [Call ConnectionTokensCreate (Normal (JObj [(''secret'', JStr ''pst_test_1'')])),
      Respond 200 (Json (JObj [(''secret'', JStr ''pst_test_1'')]))] \<and>
   \<not> logged_before_response
     (serve ConnectionToken (\<lambda>s c. (Normal (JObj [(''secret'', JStr ''pst_test_1'')]), s)) ()
        \<lparr>body = JObj []\<rparr>)"
  by code_simp

subsection \<open>The log does not depend on the secret\<close>

lemma logs_append: "logs (es @ es') = logs es @ logs es'"
  by (induction es rule: logs.induct) auto

lemma same_outcome_refl: "same_outcome (=) r r"
  by (cases r) auto

lemma sim_refl: "sim (=) m m"
  by (simp add: sim_def same_outcome_refl)

lemma low_eq_refl: "low_eq a a"
  by (simp add: low_eq_def)

lemma sim_refl_low: "sim low_eq m m"
proof -
  have "same_outcome low_eq r r" for r :: "jsval completion"
    by (cases r) (auto simp: low_eq_refl)
  then show ?thesis
    by (simp add: sim_def)
qed

lemma field_set_secret: "\<not> secret_field k \<Longrightarrow> field (set_secret x r) k = field r k"
proof (cases r)
  case (JObj kvs)
  assume k: "\<not> secret_field k"
  have "map_of (map (\<lambda>(k, v). if secret_field k then (k, x) else (k, v)) kvs) k = map_of kvs k"
    using k by (induction kvs) auto
  with JObj show ?thesis
    by simp
qed auto

lemma nullish_set_secret: "nullish (set_secret x r) = nullish r"
  by (cases r) (auto simp: nullish_def)

lemma low_eq_set_secret: "low_eq (set_secret x r) r"
  unfolding low_eq_def
proof (intro conjI impI allI)
  assume "nullish (set_secret x r) \<or> nullish r"
  then have "nullish r"
    by (simp add: nullish_set_secret)
  then show "set_secret x r = r"
    by (auto simp: nullish_def)
next
  fix k
  assume "\<not> secret_field k"
  then show "field (set_secret x r) k = field r k"
    by (rule field_set_secret)
qed

lemma sim_await: "sim low_eq (await (with_secret x vendor) c) (await vendor c)"
  unfolding sim_def
proof
  fix s
  obtain r s' where v: "vendor s c = (r, s')"
    by (cases "vendor s c") auto
  then show "snd (snd (await (with_secret x vendor) c s)) = snd (snd (await vendor c s)) \<and>
        logs (fst (snd (await (with_secret x vendor) c s))) = logs (fst (snd (await vendor c s))) \<and>
        same_outcome low_eq (fst (await (with_secret x vendor) c s)) (fst (await vendor c s))"
    by (cases r) (auto simp: await_def with_secret_def low_eq_set_secret)
qed

lemma sim_and_then:
  assumes "sim V m n" and "\<And>a b. V a b \<Longrightarrow> sim W (f a) (g b)"
  shows "sim W (and_then m f) (and_then n g)"
  unfolding sim_def
proof
  fix s
  obtain r es t where ms: "m s = (r, es, t)"
    by (cases "m s") auto
  obtain r' es' t' where ns: "n s = (r', es', t')"
    by (cases "n s") auto
  from assms(1) ms ns have st: "t = t'" and lg: "logs es = logs es'" and oc: "same_outcome V r r'"
    by (auto simp: sim_def dest!: spec [of _ s])
  show "snd (snd (and_then m f s)) = snd (snd (and_then n g s)) \<and>
        logs (fst (snd (and_then m f s))) = logs (fst (snd (and_then n g s))) \<and>
        same_outcome W (fst (and_then m f s)) (fst (and_then n g s))"
  proof (cases r)
    case (Throw e)
    with oc obtain e' where "r' = Throw e'" and "e = e'"
      by (cases r') auto
    with Throw ms ns st lg show ?thesis
      by (simp add: and_then_def)
  next
    case (Normal a)
    with oc obtain b where r': "r' = Normal b" and V: "V a b"
      by (cases r') auto
    obtain r2 es2 t2 where fs: "f a t = (r2, es2, t2)"
      by (cases "f a t") auto
    obtain r2' es2' t2' where gs: "g b t = (r2', es2', t2')"
      by (cases "g b t") auto
    from assms(2) [OF V] fs gs have "t2 = t2'" and "logs es2 = logs es2'" and "same_outcome W r2 r2'"
      by (auto simp: sim_def dest!: spec [of _ t])
    with Normal r' ms ns st lg fs gs show ?thesis
      by (simp add: and_then_def logs_append)
  qed
qed

lemma sim_try_catch:
  assumes "sim V m n" and "\<And>e. sim V (h e) (k e)"
  shows "sim V (try_catch m h) (try_catch n k)"
  unfolding sim_def
proof
  fix s
  obtain r es t where ms: "m s = (r, es, t)"
    by (cases "m s") auto
  obtain r' es' t' where ns: "n s = (r', es', t')"
    by (cases "n s") auto
  from assms(1) ms ns have st: "t = t'" and lg: "logs es = logs es'" and oc: "same_outcome V r r'"
    by (auto simp: sim_def dest!: spec [of _ s])
  show "snd (snd (try_catch m h s)) = snd (snd (try_catch n k s)) \<and>
        logs (fst (snd (try_catch m h s))) = logs (fst (snd (try_catch n k s))) \<and>
        same_outcome V (fst (try_catch m h s)) (fst (try_catch n k s))"
  proof (cases r)
    case (Normal a)
    with oc obtain b where "r' = Normal b" and "V a b"
      by (cases r') auto
    with Normal ms ns st lg show ?thesis
      by (simp add: try_catch_def)
  next
    case (Throw e)
    with oc have r': "r' = Throw e"
      by (cases r') auto
    obtain r2 es2 t2 where hs: "h e t = (r2, es2, t2)"
      by (cases "h e t") auto
    obtain r2' es2' t2' where ks: "k e t = (r2', es2', t2')"
      by (cases "k e t") auto
    from assms(2) [of e] hs ks have "t2 = t2'" and "logs es2 = logs es2'" and "same_outcome V r2 r2'"
      by (auto simp: sim_def dest!: spec [of _ t])
    with Throw r' ms ns st lg hs ks show ?thesis
      by (simp add: try_catch_def logs_append)
  qed
qed

lemma sim_and_then_same:
  assumes "\<And>a. sim W (f a) (g a)"
  shows "sim W (and_then m f) (and_then m g)"
  by (rule sim_and_then [OF sim_refl]) (simp add: assms)

lemma sim_and_then_await:
  assumes "\<And>a b. low_eq a b \<Longrightarrow> sim W (f a) (g b)"
  shows "sim W (and_then (await (with_secret x vendor) c) f) (and_then (await vendor c) g)"
  by (rule sim_and_then [OF sim_await]) (rule assms)

lemma sim_read_low:
  assumes "low_eq a b" and "\<not> secret_field k"
  shows "sim (=) (read a k) (read b k)"
proof (cases "nullish a \<or> nullish b")
  case True
  with assms(1) have "a = b"
    by (simp add: low_eq_def)
  then show ?thesis
    by (simp add: sim_refl)
next
  case False
  with assms show ?thesis
    by (simp add: sim_def read_def get_prop_def lift_def low_eq_def)
qed

lemma sim_read_any:
  assumes "low_eq a b"
  shows "sim (\<lambda>v w. True) (read a k) (read b k)"
proof (cases "nullish a \<or> nullish b")
  case True
  with assms have "a = b"
    by (simp add: low_eq_def)
  then show ?thesis
    by (cases "nullish b") (simp_all add: sim_def read_def get_prop_def lift_def)
next
  case False
  then show ?thesis
    by (simp add: sim_def read_def get_prop_def lift_def)
qed

lemma sim_and_then_read_id:
  assumes "low_eq a b" and "\<And>v. sim W (f v) (g v)"
  shows "sim W (and_then (read a ''id'') f) (and_then (read b ''id'') g)"
  by (rule sim_and_then [OF sim_read_low [OF assms(1)]]) (simp_all add: secret_field_def assms(2))

lemma sim_and_then_read_data:
  assumes "low_eq a b" and "\<And>v. sim W (f v) (g v)"
  shows "sim W (and_then (read a ''data'') f) (and_then (read b ''data'') g)"
  by (rule sim_and_then [OF sim_read_low [OF assms(1)]]) (simp_all add: secret_field_def assms(2))

lemma sim_and_then_read_any:
  assumes "low_eq a b" and "\<And>v w. sim W (f v) (g w)"
  shows "sim W (and_then (read a k) f) (and_then (read b k) g)"
  by (rule sim_and_then [OF sim_read_any [OF assms(1)]]) (rule assms(2))

lemma sim_respond: "sim (=) (respond st b) (respond st' b')"
  by (simp add: sim_def respond_def emit_def)

lemma sim_if:
  assumes "c \<Longrightarrow> sim V m n" and "\<not> c \<Longrightarrow> sim V m' n'"
  shows "sim V (if c then m else m') (if c then n else n')"
  using assms by simp

lemmas sim_intros = sim_refl sim_try_catch sim_and_then_same sim_and_then_await
  sim_and_then_read_id sim_and_then_read_data sim_and_then_read_any sim_respond sim_if

lemma sim_lookupOrCreateExampleCustomer:
  "sim low_eq (lookupOrCreateExampleCustomer (with_secret x vendor)) (lookupOrCreateExampleCustomer vendor)"
  unfolding lookupOrCreateExampleCustomer_def
  by (rule sim_intros sim_refl_low sim_await | assumption)+

lemma sim_and_then_lookup:
  assumes "\<And>a b. low_eq a b \<Longrightarrow> sim W (f a) (g b)"
  shows "sim W (and_then (lookupOrCreateExampleCustomer (with_secret x vendor)) f)
               (and_then (lookupOrCreateExampleCustomer vendor) g)"
  by (rule sim_and_then [OF sim_lookupOrCreateExampleCustomer]) (rule assms)

lemma sim_handler: "sim (=) (handler r (with_secret x vendor) req) (handler r vendor req)"
proof (cases r)
  case Root
  then show ?thesis by (simp add: root_def sim_refl)
next
  case Test
  then show ?thesis by (simp add: test_def sim_refl)
next
  case RegisterReader
  show ?thesis
    unfolding RegisterReader handler.simps register_reader_def
    by (rule sim_intros | assumption)+
next
  case ConnectionToken
  show ?thesis
    unfolding ConnectionToken handler.simps connection_token_def
    by (rule sim_intros | assumption)+
next
  case CreatePaymentIntent
  show ?thesis
    unfolding CreatePaymentIntent handler.simps create_payment_intent_def
    by (rule sim_intros | assumption)+
next
  case CapturePaymentIntent
  show ?thesis
    unfolding CapturePaymentIntent handler.simps capture_payment_intent_def
    by (rule sim_intros | assumption)+
next
  case CancelPaymentIntent
  show ?thesis
    unfolding CancelPaymentIntent handler.simps cancel_payment_intent_def
    by (rule sim_intros | assumption)+
next
  case CreateSetupIntent
  show ?thesis
    unfolding CreateSetupIntent handler.simps create_setup_intent_def
    by (rule sim_intros | assumption)+
next
  case AttachPaymentMethodToCustomer
  show ?thesis
    unfolding AttachPaymentMethodToCustomer handler.simps attach_payment_method_to_customer_def
    by (rule sim_intros sim_and_then_lookup | assumption)+
next
  case UpdatePaymentIntent
  show ?thesis
    unfolding UpdatePaymentIntent handler.simps update_payment_intent_def
    by (rule sim_intros | assumption)+
next
  case ListLocations
  show ?thesis
    unfolding ListLocations handler.simps list_locations_def
    by (rule sim_intros | assumption)+
next
  case CreateLocation
  show ?thesis
    unfolding CreateLocation handler.simps create_location_def
    by (rule sim_intros | assumption)+
qed

text \<open>
  C8: on every route, for every request and every outcome, the log lines that the handler
  writes are the same whatever the vendor returns as \<^verbatim>\<open>client_secret\<close> of a payment
  intent or setup intent and as \<^verbatim>\<open>secret\<close> of a connection token: replacing the secret
  in every vendor result by any other value \<open>x\<close> leaves the log unchanged. So a secret
  that does not occur in what the handler logs anyway does not appear in any log line
  when the vendor returns it.
\<close>

theorem log_independent_of_secret:
  "logs (serve r (with_secret x vendor) s req) = logs (serve r vendor s req) \<and>
   ((\<forall>l \<in> set (logs (serve r vendor s req)). \<not> sublist sec l) \<longrightarrow>
    (\<forall>l \<in> set (logs (serve r (with_secret (JStr sec) vendor) s req)). \<not> sublist sec l))"
proof -
  have eq: "logs (serve r (with_secret y vendor) s req) = logs (serve r vendor s req)" for y
    using sim_handler [of r y vendor req] by (simp add: sim_def serve_def)
  show ?thesis
    by (simp add: eq)
qed

theorem log_independent_of_secret_witness:
  "logs (serve CreatePaymentIntent
           (with_secret (JStr ''pi_1_secret_A'')
              (\<lambda>s c. (Normal (JObj [(''id'', JStr ''pi_1''), (''client_secret'', JStr ''pi_1_secret_B'')]), s)))
           () \<lparr>body = JObj [(''amount'', JNum 1000)]\<rparr>) =
     [[CHR 0x0A] @ ''PaymentIntent created: pi_1'' @ [CHR 0x0A]] \<and>
   \<not> sublist ''pi_1_secret_A'' ([CHR 0x0A] @ ''PaymentIntent created: pi_1'' @ [CHR 0x0A])"
proof -
  have run: "logs (serve CreatePaymentIntent
           (\<lambda>s c. (Normal (JObj [(''id'', JStr ''pi_1''), (''client_secret'', JStr ''pi_1_secret_B'')]), s))
           () \<lparr>body = JObj [(''amount'', JNum 1000)]\<rparr>) =
     [[CHR 0x0A] @ ''PaymentIntent created: pi_1'' @ [CHR 0x0A]]"
    by code_simp
  have absent: "\<not> sublist ''pi_1_secret_A'' ([CHR 0x0A] @ ''PaymentIntent created: pi_1'' @ [CHR 0x0A])"
    by code_simp
  from log_independent_of_secret [of CreatePaymentIntent "JStr ''pi_1_secret_A''"
      "\<lambda>s c. (Normal (JObj [(''id'', JStr ''pi_1''), (''client_secret'', JStr ''pi_1_secret_B'')]), s)"
      "()" "\<lparr>body = JObj [(''amount'', JNum 1000)]\<rparr>" "''pi_1_secret_A''"]
  have "logs (serve CreatePaymentIntent
           (with_secret (JStr ''pi_1_secret_A'')
              (\<lambda>s c. (Normal (JObj [(''id'', JStr ''pi_1''), (''client_secret'', JStr ''pi_1_secret_B'')]), s)))
           () \<lparr>body = JObj [(''amount'', JNum 1000)]\<rparr>) =
        logs (serve CreatePaymentIntent
           (\<lambda>s c. (Normal (JObj [(''id'', JStr ''pi_1''), (''client_secret'', JStr ''pi_1_secret_B'')]), s))
           () \<lparr>body = JObj [(''amount'', JNum 1000)]\<rparr>)"
    by (rule conjunct1)
  with run have "logs (serve CreatePaymentIntent
           (with_secret (JStr ''pi_1_secret_A'')
              (\<lambda>s c. (Normal (JObj [(''id'', JStr ''pi_1''), (''client_secret'', JStr ''pi_1_secret_B'')]), s)))
           () \<lparr>body = JObj [(''amount'', JNum 1000)]\<rparr>) =
     [[CHR 0x0A] @ ''PaymentIntent created: pi_1'' @ [CHR 0x0A]]"
    by (simp only:)
  from this absent show ?thesis
    by (rule conjI)
qed

subsection \<open>Attaching a payment method to the sentinel customer\<close>

lemma calls_append: "calls (es @ es') = calls es @ calls es'"
  by (induction es rule: calls.induct) auto

lemma calls_try_catch_402:
  "calls (fst (snd (try_catch m (\<lambda>err. and_then (logInfo (p @ err)) (\<lambda>msg. respond 402 (Text msg))) s))) =
   calls (fst (snd (m s)))"
proof -
  obtain r es s' where ms: "m s = (r, es, s')"
    by (cases "m s") auto
  then show ?thesis
    by (cases r) (simp_all add: try_catch_def catch_402 calls_append)
qed

lemma calls_and_then:
  "calls (fst (snd (and_then m f s))) =
   calls (fst (snd (m s))) @
     (case fst (m s) of
        Normal a \<Rightarrow> calls (fst (snd (f a (snd (snd (m s))))))
      | Throw e \<Rightarrow> [])"
proof -
  obtain r es s' where ms: "m s = (r, es, s')"
    by (cases "m s") auto
  show ?thesis
  proof (cases r)
    case (Throw e)
    with ms show ?thesis by (simp add: and_then_def)
  next
    case (Normal a)
    obtain r' es' s'' where "f a s' = (r', es', s'')"
      by (cases "f a s'") auto
    with ms Normal show ?thesis by (simp add: and_then_def calls_append)
  qed
qed

lemma lookupOrCreateExampleCustomer_run:
  assumes "vendor s (CustomersList (JObj [(''email'', JStr ''example@test.com''), (''limit'', JNum 1)])) = (out, s1)"
    and "vendor s1 (CustomersCreate (JObj [(''email'', JStr ''example@test.com'')])) = (out2, s2)"
  shows "calls (fst (snd (lookupOrCreateExampleCustomer vendor s))) =
           CustomersList (JObj [(''email'', JStr ''example@test.com''), (''limit'', JNum 1)]) #
           (case out of
              Throw e \<Rightarrow> []
            | Normal customers \<Rightarrow>
                if nullish customers \<or> nullish (field customers ''data'') then []
                else if truthy (field (field customers ''data'') ''length'') then []
                else [CustomersCreate (JObj [(''email'', JStr ''example@test.com'')])])"
    and "fst (lookupOrCreateExampleCustomer vendor s) =
           (case out of
              Throw e \<Rightarrow> Throw e
            | Normal customers \<Rightarrow>
                if nullish customers then Throw (type_error customers ''data'')
                else if nullish (field customers ''data'') then Throw (type_error (field customers ''data'') ''length'')
                else if truthy (field (field customers ''data'') ''length'')
                then Normal (element (field customers ''data'') 0)
                else out2)"
    and "snd (snd (lookupOrCreateExampleCustomer vendor s)) =
           (case out of
              Throw e \<Rightarrow> s1
            | Normal customers \<Rightarrow>
                if nullish customers \<or> nullish (field customers ''data'') then s1
                else if truthy (field (field customers ''data'') ''length'') then s1
                else s2)"
  using assms
  by (auto simp: lookupOrCreateExampleCustomer_def io_defs split: completion.splits)

lemma attach_after_lookup:
  "calls (fst (snd ((and_then (read (body req) ''payment_method_id'') (\<lambda>payment_method_id.
        and_then (read customer ''id'') (\<lambda>customer_id.
        and_then (await vendor (PaymentMethodsAttach payment_method_id (JObj
          [(''customer'', customer_id), (''expand'', JArr [JStr ''customer''])]))) (\<lambda>paymentMethod.
        and_then (read customer ''id'') (\<lambda>logged_id.
        and_then (template ''Attached PaymentMethod to Customer: '' logged_id '''') (\<lambda>message.
        and_then (logInfo message) (\<lambda>_.
        respond 200 (Json paymentMethod)))))))) s'))) =
     (if nullish (body req) \<or> nullish customer then []
      else [PaymentMethodsAttach (field (body req) ''payment_method_id'') (JObj
          [(''customer'', field customer ''id''), (''expand'', JArr [JStr ''customer''])])])"
  by (cases "vendor s' (PaymentMethodsAttach (field (body req) ''payment_method_id'') (JObj
          [(''customer'', field customer ''id''), (''expand'', JArr [JStr ''customer''])]))")
     (auto simp: io_defs split: completion.splits)

text \<open>
  C4: for every request, the vendor calls of the \<^verbatim>\<open>attach_payment_method_to_customer\<close>
  handler are, in this order: the customer list call with the sentinel email and
  \<^verbatim>\<open>limit: 1\<close>, always and first; the customer create call with the sentinel email,
  only when the list call succeeded with a \<^verbatim>\<open>data\<close> of falsy length; and, after the
  customer has been found or created, the attach call on the \<^verbatim>\<open>payment_method_id\<close> of
  the request body, with the \<^verbatim>\<open>id\<close> of that customer (the first element of \<^verbatim>\<open>data\<close>,
  or the created one) as \<^verbatim>\<open>customer\<close> and with \<^verbatim>\<open>expand: ["customer"]\<close>. No call is
  issued after one that failed.
\<close>

theorem attach_payment_method_call_sequence:
  assumes "vendor s (CustomersList (JObj [(''email'', JStr ''example@test.com''), (''limit'', JNum 1)])) = (out, s1)"
    and "vendor s1 (CustomersCreate (JObj [(''email'', JStr ''example@test.com'')])) = (out2, s2)"
  shows "calls (serve AttachPaymentMethodToCustomer vendor s req) =
     (let attach_to = (\<lambda>customer.
            if nullish (body req) \<or> nullish customer then []
            else [PaymentMethodsAttach (field (body req) ''payment_method_id'') (JObj
                    [(''customer'', field customer ''id''), (''expand'', JArr [JStr ''customer''])])])
      in CustomersList (JObj [(''email'', JStr ''example@test.com''), (''limit'', JNum 1)]) #
         (case out of
            Throw e \<Rightarrow> []
          | Normal customers \<Rightarrow>
              if nullish customers \<or> nullish (field customers ''data'') then []
              else if truthy (field (field customers ''data'') ''length'')
              then attach_to (element (field customers ''data'') 0)
              else CustomersCreate (JObj [(''email'', JStr ''example@test.com'')]) #
                   (case out2 of Throw e \<Rightarrow> [] | Normal customer \<Rightarrow> attach_to customer)))"
  unfolding serve_def handler.simps attach_payment_method_to_customer_def calls_try_catch_402
    calls_and_then [of "lookupOrCreateExampleCustomer vendor"] attach_after_lookup
    lookupOrCreateExampleCustomer_run [OF assms]
  by (simp split: completion.splits)

theorem attach_payment_method_call_sequence_witness:
  "calls (serve AttachPaymentMethodToCustomer
     (\<lambda>s c. case c of
        CustomersList p \<Rightarrow> (Normal (JObj [(''data'', JArr [])]), Suc s)
      | CustomersCreate p \<Rightarrow> (Normal (JObj [(''id'', JStr ''cus_1'')]), Suc s)
      | _ \<Rightarrow> (Normal (JObj [(''id'', JStr ''pm_1'')]), Suc s))
     (0::nat) \<lparr>body = JObj [(''payment_method_id'', JStr ''pm_1''), (''customer'', JStr ''cus_other'')]\<rparr>) =
   [CustomersList (JObj [(''email'', JStr ''example@test.com''), (''limit'', JNum 1)]),
    CustomersCreate (JObj [(''email'', JStr ''example@test.com'')]),
    PaymentMethodsAttach (JStr ''pm_1'')
      (JObj [(''customer'', JStr ''cus_1''), (''expand'', JArr [JStr ''customer''])])]"
  using attach_payment_method_call_sequence [where
    vendor = "\<lambda>s c. case c of
        CustomersList p \<Rightarrow> (Normal (JObj [(''data'', JArr [])]), Suc s)
      | CustomersCreate p \<Rightarrow> (Normal (JObj [(''id'', JStr ''cus_1'')]), Suc s)
      | _ \<Rightarrow> (Normal (JObj [(''id'', JStr ''pm_1'')]), Suc s)"
    and s = "0::nat" and ?s1.0 = "Suc 0" and ?s2.0 = "Suc (Suc 0)"
    and out = "Normal (JObj [(''data'', JArr [])])"
    and ?out2.0 = "Normal (JObj [(''id'', JStr ''cus_1'')])"
    and req = "\<lparr>body = JObj [(''payment_method_id'', JStr ''pm_1''), (''customer'', JStr ''cus_other'')]\<rparr>"]
  by (simp add: nullish_def)

end
